theory Spec2Isabelle
  imports Complex_Main "HOL-Library.Stream"
begin

section \<open>The code definition: parity-check matrices and the codeword list\<close>

text \<open>
  The notebook fixes the self-dual Hamming CSS code on 15 qubits through three global
  constants. They are copied literally; a matrix is a list of rows, a row a list of the
  Python integers 0 and 1.
\<close>

definition H_matrix :: "nat list list" where
  "H_matrix =
    [[1,0,1,0,1,0,1,0,1,0,1,0,1,0,1],
     [0,1,1,0,0,1,1,0,0,1,1,0,0,1,1],
     [0,0,0,1,1,1,1,0,0,0,0,1,1,1,1],
     [0,0,0,0,0,0,0,1,1,1,1,1,1,1,1]]"

definition H_std :: "nat list list" where
  "H_std =
    [[1,0,0,0,1,0,1,1,1,0,1,0,1,0,1],
     [0,1,0,0,0,1,1,1,0,1,1,0,0,1,1],
     [0,0,1,0,0,0,0,0,1,1,1,1,1,1,1],
     [0,0,0,1,1,1,1,0,0,0,0,1,1,1,1]]"

definition logical_zero_components :: "string list" where
  "logical_zero_components =
    [''110000110011110'',
     ''011010011001011'',
     ''000000000000000'',
     ''101001010101101'',
     ''101010101010101'',
     ''010101011010101'',
     ''001100111100110'',
     ''100110010110011'',
     ''111111110000000'',
     ''111100001111000'',
     ''100101101001011'',
     ''110011001100110'',
     ''000011111111000'',
     ''010110100101101'',
     ''001111000011110'',
     ''011001100110011'']"

section \<open>Syndrome extraction and correction on the error frame\<close>

text \<open>
  Every gate of \<open>CSS_correction\<close> is a Clifford gate, so the effect of the Pauli errors
  on the syndrome registers is tracked by two bit vectors of length 15: bit \<open>i\<close> of the
  X-error vector says that qubit \<open>i\<close> carries a bit flip (an X or a Y error), bit \<open>i\<close>
  of the Z-error vector that it carries a phase flip (a Z or a Y error).

  The X-syndrome loop of the source is
  \<^verbatim>\<open>
    for syndrome_index, entry in enumerate(H_matrix):
        for index, element in enumerate(entry):
            if element:
                CSS_circuit.cx(encoding_qubits[index], x_ancillas[syndrome_index])
    CSS_circuit.measure(x_ancillas, x_syndromes)
  \<close>
  A controlled-NOT copies the bit flip of its control onto its target, so each
  \<open>cx\<close> XORs the error bit of qubit \<open>index\<close> into ancilla \<open>syndrome_index\<close>.
  The Z-syndrome loop is the same loop with control and target exchanged between two
  layers of Hadamard gates on the ancillas: there a phase flip of the data qubit is
  copied onto the ancilla. Both loops are therefore the function \<open>syndrome_ancillas\<close>,
  applied to the X-error vector and to the Z-error vector respectively. The ancilla
  register has 4 qubits, all starting in state 0; the indices \<open>index\<close> and
  \<open>syndrome_index\<close> are always inside the registers of size 15 and 4.
\<close>

definition cx_parity :: "bool list \<Rightarrow> nat \<Rightarrow> nat \<Rightarrow> bool list \<Rightarrow> bool list" where
  "cx_parity e index syndrome_index anc =
     anc[syndrome_index := (anc ! syndrome_index \<noteq> e ! index)]"

definition syndrome_row :: "bool list \<Rightarrow> nat \<Rightarrow> nat list \<Rightarrow> bool list \<Rightarrow> bool list" where
  "syndrome_row e syndrome_index entry anc =
     fold (\<lambda>(index, element) a.
             if element \<noteq> 0 then cx_parity e index syndrome_index a else a)
          (enumerate 0 entry) anc"

definition syndrome_ancillas :: "nat list list \<Rightarrow> bool list \<Rightarrow> bool list" where
  "syndrome_ancillas H e =
     fold (\<lambda>(syndrome_index, entry) a. syndrome_row e syndrome_index entry a)
          (enumerate 0 H) (replicate 4 False)"

text \<open>
  \<open>measure(x_ancillas, x_syndromes)\<close> stores ancilla \<open>r\<close> in classical bit \<open>r\<close>;
  \<open>if_test((x_syndromes, v))\<close> compares the register, read as an integer whose bit \<open>r\<close>
  is classical bit \<open>r\<close>, with \<open>v\<close>.
\<close>

definition measure_register :: "bool list \<Rightarrow> nat" where
  "measure_register bits =
     sum_list (map (\<lambda>(r, b). if b then 2 ^ r else 0) (enumerate 0 bits))"

definition computeSyndrome :: "nat list list \<Rightarrow> bool list \<Rightarrow> nat" where
  "computeSyndrome H e = measure_register (syndrome_ancillas H e)"

text \<open>
  The correction loop
  \<^verbatim>\<open>
    for i in range(15):
        with CSS_circuit.if_test((x_syndromes,i+1)):
            CSS_circuit.x(encoding_qubits[i])
  \<close>
  flips the error bit of qubit \<open>i\<close> in the branch whose test succeeds. The model returns
  the corrected vector together with the list of the branches that fired, in order.
\<close>

definition correction_stage :: "nat \<Rightarrow> bool list \<Rightarrow> bool list \<times> nat list" where
  "correction_stage syndrome e =
     fold (\<lambda>i (v, fired).
             if syndrome = i + 1 then (v[i := \<not> v ! i], fired @ [i]) else (v, fired))
          [0..<15] (e, [])"

record error_frame =
  e_X :: "bool list"
  e_Z :: "bool list"

text \<open>
  The part of \<open>CSS_correction\<close> after the error channel: both syndromes are measured,
  then X errors are corrected from the X-syndrome and Z errors from the Z-syndrome. The
  result is the corrected frame, the two syndrome values and the two lists of fired
  branches.
\<close>

definition CSS_correction ::
  "error_frame \<Rightarrow> error_frame \<times> (nat \<times> nat) \<times> (nat list \<times> nat list)" where
  "CSS_correction f =
     (let x_syndromes = computeSyndrome H_matrix (e_X f);
          z_syndromes = computeSyndrome H_matrix (e_Z f);
          (ex, x_fired) = correction_stage x_syndromes (e_X f);
          (ez, z_fired) = correction_stage z_syndromes (e_Z f)
      in (\<lparr>e_X = ex, e_Z = ez\<rparr>, (x_syndromes, z_syndromes), (x_fired, z_fired)))"

text \<open>The error vector with exactly one bit set, at index \<open>q\<close>.\<close>

definition single_error :: "nat \<Rightarrow> bool list" where
  "single_error q = (replicate 15 False)[q := True]"

section \<open>Reading the matrices\<close>

text \<open>
  Column \<open>i\<close> of a matrix, and the integer it spells with row 0 as the least
  significant bit.
\<close>

definition column :: "nat list list \<Rightarrow> nat \<Rightarrow> nat list" where
  "column H i = map (\<lambda>row. row ! i) H"

definition column_value :: "nat list list \<Rightarrow> nat \<Rightarrow> nat" where
  "column_value H i =
     sum_list (map (\<lambda>(r, b). b * 2 ^ r) (enumerate 0 (column H i)))"

text \<open>
  The notebook gives \<open>H_std\<close> as a literal and describes in a comment how it was
  obtained ("swaps the 3rd and 4th generators above and swaps the 3rd and 8th qubits").
  The two swaps of that description, on zero-based indices:
\<close>

definition swap_coordinates :: "nat \<Rightarrow> nat \<Rightarrow> 'a list \<Rightarrow> 'a list" where
  "swap_coordinates a b s = s[a := s ! b, b := s ! a]"

definition swapRows :: "nat \<Rightarrow> nat \<Rightarrow> nat list list \<Rightarrow> nat list list" where
  "swapRows a b M = swap_coordinates a b M"

definition swapColumns :: "nat \<Rightarrow> nat \<Rightarrow> nat list list \<Rightarrow> nat list list" where
  "swapColumns a b M = map (swap_coordinates a b) M"

definition identity_matrix :: "nat \<Rightarrow> nat list list" where
  "identity_matrix n = map (\<lambda>i. map (\<lambda>j. if i = j then 1 else 0) [0..<n]) [0..<n]"

section \<open>The encoding circuit and the codewords\<close>

text \<open>
  The encoding part of \<open>CSS_correction\<close> is
  \<^verbatim>\<open>
    for i in range(4):
        CSS_circuit.h(encoding_qubits[i])
        for j in range(4,15):
            if (H_std[i])[j] == 1:
                CSS_circuit.cx(encoding_qubits[i],encoding_qubits[j])
    CSS_circuit.swap(encoding_qubits[2], encoding_qubits[7])
  \<close>
  It is run on the all-zero basis state. The state is tracked by its support, the list of
  the basis states (bit \<open>i\<close> of a basis state is qubit \<open>i\<close>) that occur in the uniform
  superposition. A Hadamard gate on a qubit that is 0 in every basis state of the support
  adds to each of them its copy with that qubit set; on any other support this model of
  the gate does not apply, and the result is \<open>None\<close>. A controlled-NOT and a swap act
  on each basis state.
\<close>

definition h_gate :: "nat \<Rightarrow> bool list list \<Rightarrow> bool list list option" where
  "h_gate i S =
     (if list_all (\<lambda>s. \<not> s ! i) S then Some (S @ map (\<lambda>s. s[i := True]) S) else None)"

definition cx_gate :: "nat \<Rightarrow> nat \<Rightarrow> bool list list \<Rightarrow> bool list list" where
  "cx_gate c t S = map (\<lambda>s. s[t := (s ! t \<noteq> s ! c)]) S"

definition swap_gate :: "nat \<Rightarrow> nat \<Rightarrow> bool list list \<Rightarrow> bool list list" where
  "swap_gate a b S = map (swap_coordinates a b) S"

definition encode_row :: "nat \<Rightarrow> bool list list \<Rightarrow> bool list list option" where
  "encode_row i S =
     (case h_gate i S of
        None \<Rightarrow> None
      | Some S' \<Rightarrow>
          Some (fold (\<lambda>j T. if H_std ! i ! j = 1 then cx_gate i j T else T) [4..<15] S'))"

definition encode_logical_zero :: "bool list list option" where
  "encode_logical_zero =
     (case fold (\<lambda>i r. case r of None \<Rightarrow> None | Some S \<Rightarrow> encode_row i S)
                [0..<4] (Some [replicate 15 False]) of
        None \<Rightarrow> None
      | Some S \<Rightarrow> Some (swap_gate 2 7 S))"

text \<open>
  The codeword set as the specification describes it: all \<open>2^4\<close> combinations over
  GF(2) of the four rows of \<open>H_std\<close>, each with coordinates 2 and 7 swapped afterwards.
\<close>

definition xor_rows :: "bool list \<Rightarrow> bool list \<Rightarrow> bool list" where
  "xor_rows a b = map2 (\<lambda>x y. x \<noteq> y) a b"

definition gf2_combination :: "bool list \<Rightarrow> nat list list \<Rightarrow> bool list" where
  "gf2_combination cs rows =
     fold (\<lambda>(c, row) acc. if c then xor_rows acc (map (\<lambda>x. x \<noteq> 0) row) else acc)
          (zip cs rows) (replicate 15 False)"

definition H_std_row_space :: "bool list list" where
  "H_std_row_space = map (\<lambda>cs. gf2_combination cs H_std) (List.n_lists 4 [False, True])"

definition derived_codewords :: "bool list list" where
  "derived_codewords = map (swap_coordinates 2 7) H_std_row_space"

text \<open>
  Two ways of writing a bit vector as a string of the characters 0 and 1, and of reading
  one back. In index order, character \<open>i\<close> is bit \<open>i\<close>. The notebook compares the
  entries of \<open>logical_zero_components\<close> with \<open>key[3:18]\<close> (respectively
  \<open>key[:15]\<close>), the part of a measurement key that holds the 15-bit register
  \<open>output_measurements\<close>; such a key shows classical bit 0 as its last character, so
  in measurement order character \<open>j\<close> is bit \<open>14 - j\<close>.
\<close>

definition bit_char :: "bool \<Rightarrow> char" where
  "bit_char b = (if b then CHR ''1'' else CHR ''0'')"

definition char_bit :: "char \<Rightarrow> bool" where
  "char_bit c = (c = CHR ''1'')"

definition index_order_string :: "bool list \<Rightarrow> string" where
  "index_order_string s = map bit_char s"

definition measurement_key :: "bool list \<Rightarrow> string" where
  "measurement_key s = rev (map bit_char s)"

definition index_order_bits :: "string \<Rightarrow> bool list" where
  "index_order_bits k = map char_bit k"

definition measurement_bits :: "string \<Rightarrow> bool list" where
  "measurement_bits k = rev (map char_bit k)"

definition xor_strings :: "string \<Rightarrow> string \<Rightarrow> string" where
  "xor_strings a b = map2 (\<lambda>x y. bit_char (char_bit x \<noteq> char_bit y)) a b"

definition hamming_weight :: "string \<Rightarrow> nat" where
  "hamming_weight k = length (filter char_bit k)"

text \<open>The number of positions at which a row of a matrix and a bit vector are both 1.\<close>

definition overlap :: "nat list \<Rightarrow> bool list \<Rightarrow> nat" where
  "overlap row v = length (filter (\<lambda>(h, b). h \<noteq> 0 \<and> b) (zip row v))"

text \<open>
  The syndrome as the specification describes it: bit \<open>r\<close> of the integer is the XOR
  of the error bits at the positions where row \<open>r\<close> of the matrix is 1, that is, the
  parity of the overlap of row \<open>r\<close> with the error vector.
\<close>

definition parity_syndrome :: "nat list list \<Rightarrow> bool list \<Rightarrow> nat" where
  "parity_syndrome H e =
     sum_list (map (\<lambda>(r, row). if odd (overlap row e) then 2 ^ r else 0) (enumerate 0 H))"

section \<open>The two error channels\<close>

text \<open>
  Both error channels of the notebook return a \<open>QuantumCircuit\<close>. A circuit is the list
  of its instructions, in order. The instructions are those the two functions append:
  the Pauli gates \<open>x\<close>, \<open>y\<close>, \<open>z\<close> on a qubit, the rotations \<open>ry\<close> and
  \<open>cry\<close> on the ancillas (given by their index in \<open>ancilla_register\<close>), the
  measurement of the ancilla register into the classical register, and a block of
  instructions under \<open>if_test\<close> on the value of the classical register. The qubit
  that receives the error is \<open>error_register[0]\<close> in \<open>pauli_error\<close> and qubit 0 of
  \<open>QuantumCircuit(1)\<close> in \<open>pauli_error_numpy\<close>.
\<close>

datatype gate = X_gate | Y_gate | Z_gate

datatype qubit = Error_qubit | Ancilla nat

datatype instr =
    Gate gate qubit
  | Ry real nat
  | Cry real nat nat
  | Measure
  | If_test nat "instr list"

datatype pauli = Pauli_I | Pauli_X | Pauli_Y | Pauli_Z

datatype error = InvalidParameterError | ZeroDivisionError

text \<open>
  \<^verbatim>\<open>
    def pauli_error_numpy(p):
        qc = QuantumCircuit(1)
        randnum = np.random.rand()
        if randnum < p:
            qc.x(0)
        if randnum < 2*p:
            qc.y(0)
        if randnum < 3*p:
            qc.z(0)
        return qc
  \<close>
  The random source of numpy is an explicit state, the stream of the values that
  \<open>np.random.rand()\<close> will return; a call takes the head of the stream. The function
  has no \<open>raise\<close>: its result is always a circuit, written \<open>Inr\<close>. The numbers
  \<open>p\<close> and \<open>randnum\<close> are floating-point numbers in the source and reals here; the
  three tests are comparisons, and the concrete inputs used below (multiples of 1/8) are
  exact in both.
\<close>

definition np_random_rand :: "real stream \<Rightarrow> real \<times> real stream" where
  "np_random_rand rng = (shd rng, stl rng)"

definition pauli_error_numpy ::
  "real \<Rightarrow> real stream \<Rightarrow> (error + instr list) \<times> real stream" where
  "pauli_error_numpy p rng =
     (let (randnum, rng') = np_random_rand rng;
          qc = [];
          qc = (if randnum < p then qc @ [Gate X_gate Error_qubit] else qc);
          qc = (if randnum < 2 * p then qc @ [Gate Y_gate Error_qubit] else qc);
          qc = (if randnum < 3 * p then qc @ [Gate Z_gate Error_qubit] else qc)
      in (Inr qc, rng'))"

text \<open>
  \<^verbatim>\<open>
    def pauli_error(p):
        ...
        theta_0 = 2*np.arccos(np.sqrt(2*p))
        theta_10 = 2*np.arccos(1/np.sqrt(2))
        theta_11 = 2*np.arccos(np.sqrt(p/(1-2*p)))
        qc.ry(theta_0, ancilla_register[1])
        qc.x(ancilla_register[1])
        qc.cry(theta_10, ancilla_register[1], ancilla_register[0])
        qc.x(ancilla_register[1])
        qc.cry(theta_11, ancilla_register[1], ancilla_register[0])
        qc.measure(ancilla_register,classical_register)
        with qc.if_test((classical_register,0)):
            qc.x(error_register[0])
        with qc.if_test((classical_register,1)):
            qc.y(error_register[0])
            qc.x(ancilla_register[0])
        with qc.if_test((classical_register,2)):
            qc.z(error_register[0])
            qc.x(ancilla_register[1])
        with qc.if_test((classical_register,3)):
            qc.x(ancilla_register[:])
        return qc
  \<close>
  This function draws nothing when it is called: its randomness is the measurement of the
  ancillas in every shot. The quotient \<open>p/(1-2*p)\<close> of Python floats raises
  \<open>ZeroDivisionError\<close> when \<open>p\<close> is 0.5. The angles are floating-point values; they
  set the probabilities of the four measurement results and nothing else, and they are
  carried as parameters that no definition below looks at (outside \<open>[0, 1/3]\<close> the
  source computes them from square roots and arc cosines out of their domains).
\<close>

definition pauli_error :: "real \<Rightarrow> error + instr list" where
  "pauli_error p =
     (if 1 - 2 * p = 0 then Inl ZeroDivisionError
      else
        (let theta_0 = 2 * arccos (sqrt (2 * p));
             theta_10 = 2 * arccos (1 / sqrt 2);
             theta_11 = 2 * arccos (sqrt (p / (1 - 2 * p)))
         in Inr [Ry theta_0 1,
                 Gate X_gate (Ancilla 1),
                 Cry theta_10 1 0,
                 Gate X_gate (Ancilla 1),
                 Cry theta_11 1 0,
                 Measure,
                 If_test 0 [Gate X_gate Error_qubit],
                 If_test 1 [Gate Y_gate Error_qubit, Gate X_gate (Ancilla 0)],
                 If_test 2 [Gate Z_gate Error_qubit, Gate X_gate (Ancilla 1)],
                 If_test 3 [Gate X_gate (Ancilla 0), Gate X_gate (Ancilla 1)]]))"

text \<open>
  The effect of a gate on the error frame of its qubit, a pair of the bit-flip bit and the
  phase-flip bit: X flips the first, Z the second, Y both. The net Pauli operator on a
  qubit, up to a global phase, is read off the frame produced from the empty frame.
\<close>

fun apply_gate :: "gate \<Rightarrow> bool \<times> bool \<Rightarrow> bool \<times> bool" where
  "apply_gate X_gate (x, z) = (\<not> x, z)"
| "apply_gate Y_gate (x, z) = (\<not> x, \<not> z)"
| "apply_gate Z_gate (x, z) = (x, \<not> z)"

fun pauli_of_frame :: "bool \<times> bool \<Rightarrow> pauli" where
  "pauli_of_frame (False, False) = Pauli_I"
| "pauli_of_frame (True, False) = Pauli_X"
| "pauli_of_frame (True, True) = Pauli_Y"
| "pauli_of_frame (False, True) = Pauli_Z"

text \<open>
  One shot of a circuit. The state of a shot is the error frame of the error qubit, the
  value of the classical register (0 at the start of a shot) and the random source of the
  simulator, the stream of the results its measurements will give. A Pauli gate on the
  error qubit changes the frame; gates and rotations on the ancillas do not touch the
  error qubit; the measurement takes the next result of the simulator, a value of the
  2-bit register; an \<open>if_test\<close> block runs when the register has the tested value. A
  shot makes no call of \<open>np.random.rand\<close>.
\<close>

record shot_state =
  frame :: "bool \<times> bool"
  creg :: nat
  sim :: "nat stream"

fun exec :: "instr \<Rightarrow> shot_state \<Rightarrow> shot_state" where
  "exec (Gate g Error_qubit) s = s\<lparr>frame := apply_gate g (frame s)\<rparr>"
| "exec (Gate g (Ancilla k)) s = s"
| "exec (Ry theta k) s = s"
| "exec (Cry theta c t) s = s"
| "exec Measure s = s\<lparr>creg := shd (sim s) mod 4, sim := stl (sim s)\<rparr>"
| "exec (If_test v body) s = (if creg s = v then fold exec body s else s)"

definition run_shot :: "instr list \<Rightarrow> nat stream \<Rightarrow> shot_state" where
  "run_shot qc sim0 = fold exec qc \<lparr>frame = (False, False), creg = 0, sim = sim0\<rparr>"

definition pauli_outcome :: "instr list \<Rightarrow> nat stream \<Rightarrow> pauli" where
  "pauli_outcome qc sim0 = pauli_of_frame (frame (run_shot qc sim0))"

text \<open>
  The notebook runs a circuit in two ways: one constructed circuit for several shots
  (\<open>simulator.run(compiled_circuit, shots = rounds)\<close>), and a loop that constructs the
  circuit anew for every single shot (\<open>for i in range(totalrounds)\<close> with
  \<open>rounds = 1\<close>). Both return the Pauli outcomes of the shots in order, and the random
  sources as they are left.
\<close>

fun replay_shots :: "instr list \<Rightarrow> nat \<Rightarrow> nat stream \<Rightarrow> pauli list \<times> nat stream" where
  "replay_shots qc 0 sim0 = ([], sim0)"
| "replay_shots qc (Suc n) sim0 =
     (let s = run_shot qc sim0;
          (outs, sim2) = replay_shots qc n (sim s)
      in (pauli_of_frame (frame s) # outs, sim2))"

fun rebuild_shots ::
  "real \<Rightarrow> nat \<Rightarrow> real stream \<Rightarrow> nat stream \<Rightarrow> pauli list \<times> real stream \<times> nat stream" where
  "rebuild_shots p 0 rng sim0 = ([], rng, sim0)"
| "rebuild_shots p (Suc n) rng sim0 =
     (case pauli_error_numpy p rng of
        (Inl e, rng1) \<Rightarrow> ([], rng1, sim0)
      | (Inr qc, rng1) \<Rightarrow>
          (let s = run_shot qc sim0;
               (outs, rng2, sim2) = rebuild_shots p n rng1 (sim s)
           in (pauli_of_frame (frame s) # outs, rng2, sim2)))"

text \<open>An instruction that neither measures nor tests the classical register.\<close>

fun measurement_free :: "instr \<Rightarrow> bool" where
  "measurement_free (Gate g q) = True"
| "measurement_free (Ry theta k) = True"
| "measurement_free (Cry theta c t) = True"
| "measurement_free Measure = False"
| "measurement_free (If_test v body) = False"

section \<open>Single errors and the zero error\<close>

lemma single_error_unique:
  assumes "length e = 15" and "q < 15" and "e ! q" and "\<forall>j<15. j \<noteq> q \<longrightarrow> \<not> e ! j"
  shows "e = single_error q"
proof (rule nth_equalityI)
  show "length e = length (single_error q)"
    using assms(1) by (simp add: single_error_def)
next
  fix i assume "i < length e"
  then have i: "i < 15" using assms(1) by simp
  show "e ! i = single_error q ! i"
  proof (cases "i = q")
    case True
    then show ?thesis using assms(2,3) by (simp add: single_error_def)
  next
    case False
    then show ?thesis using assms(4) i by (simp add: single_error_def)
  qed
qed

lemma syndrome_table:
  "list_all (\<lambda>q. computeSyndrome H_matrix (single_error q) = q + 1) [0..<15]"
  by code_simp

lemma correction_table:
  "list_all (\<lambda>q. correction_stage (q + 1) (single_error q) = (replicate 15 False, [q]))
     [0..<15]"
  by code_simp

lemma syndrome_single:
  "q < 15 \<Longrightarrow> computeSyndrome H_matrix (single_error q) = q + 1"
  using syndrome_table unfolding list_all_iff by simp

lemma correction_single:
  "q < 15 \<Longrightarrow> correction_stage (q + 1) (single_error q) = (replicate 15 False, [q])"
  using correction_table unfolding list_all_iff by simp

lemma correction_stage_zero: "correction_stage 0 e = (e, [])"
  by (simp add: correction_stage_def upt_rec)

text \<open>
  The two loops of the syndrome extraction compute the parities of the specification:
  the ancilla of a row ends as the parity of the overlap of that row with the error
  vector.
\<close>

lemma syndrome_fold_parity:
  "r < length anc \<Longrightarrow>
   fold (\<lambda>(index, element) a. if element \<noteq> 0 then cx_parity e index r a else a)
        (enumerate n entry) anc
   = anc[r := (anc ! r \<noteq> odd (length (filter (\<lambda>(i, h). h \<noteq> 0 \<and> e ! i) (enumerate n entry))))]"
proof (induction entry arbitrary: n anc)
  case Nil
  then show ?case by simp
next
  case (Cons h t)
  show ?case
  proof (cases "h \<noteq> 0 \<and> e ! n")
    case True
    have len: "r < length (cx_parity e n r anc)"
      using Cons.prems by (simp add: cx_parity_def)
    show ?thesis
      using True Cons.prems Cons.IH [OF len, of "Suc n"]
      by (auto simp add: cx_parity_def)
  next
    case False
    have len: "r < length (cx_parity e n r anc)"
      using Cons.prems by (simp add: cx_parity_def)
    show ?thesis
      using False Cons.prems Cons.IH [OF len, of "Suc n"] Cons.IH [OF Cons.prems, of "Suc n"]
      by (auto simp add: cx_parity_def)
  qed
qed

lemma count_enumerate_zip:
  "n + length entry \<le> length e \<Longrightarrow>
   length (filter (\<lambda>(i, h). h \<noteq> 0 \<and> e ! i) (enumerate n entry))
   = length (filter (\<lambda>(h, b). h \<noteq> 0 \<and> b) (zip entry (drop n e)))"
proof (induction entry arbitrary: n)
  case Nil
  then show ?case by simp
next
  case (Cons h t)
  then have n: "n < length e" by simp
  have d: "drop n e = e ! n # drop (Suc n) e"
    using n by (simp add: Cons_nth_drop_Suc)
  have "Suc n + length t \<le> length e" using Cons.prems by simp
  from Cons.IH [OF this] show ?case
    by (simp add: d)
qed

lemma syndrome_row_parity:
  assumes "r < length anc" and "length entry \<le> length e"
  shows "syndrome_row e r entry anc = anc[r := (anc ! r \<noteq> odd (overlap entry e))]"
proof -
  have "0 + length entry \<le> length e" using assms(2) by simp
  from count_enumerate_zip [OF this] show ?thesis
    unfolding syndrome_row_def overlap_def
    using syndrome_fold_parity [OF assms(1), of e 0 entry] by simp
qed

lemma syndrome_ancillas_four_rows:
  assumes "length r0 \<le> length e" "length r1 \<le> length e" "length r2 \<le> length e" "length r3 \<le> length e"
  shows "syndrome_ancillas [r0, r1, r2, r3] e
         = [odd (overlap r0 e), odd (overlap r1 e), odd (overlap r2 e), odd (overlap r3 e)]"
  using assms
  by (simp add: syndrome_ancillas_def syndrome_row_parity numeral_eq_Suc)

lemma computeSyndrome_four_rows:
  assumes "length r0 \<le> length e" "length r1 \<le> length e" "length r2 \<le> length e" "length r3 \<le> length e"
  shows "computeSyndrome [r0, r1, r2, r3] e = parity_syndrome [r0, r1, r2, r3] e"
  unfolding computeSyndrome_def syndrome_ancillas_four_rows [OF assms]
  by (simp add: measure_register_def parity_syndrome_def)

lemma computeSyndrome_is_parity:
  "length e = 15 \<Longrightarrow> computeSyndrome H_matrix e = parity_syndrome H_matrix e"
  unfolding H_matrix_def by (rule computeSyndrome_four_rows) simp_all

text \<open>
  Claim C1. Let \<open>e\<close> be an error vector of length 15 with exactly one bit set, at index
  \<open>q\<close>. Its syndrome under \<open>H_matrix\<close>, as the circuit computes it and as the
  integer of the row parities, is \<open>q + 1\<close>, and the correction loop run on
  that syndrome fires the branch of qubit \<open>q\<close> and no other, which removes the error.
  This holds in \<open>CSS_correction\<close> when \<open>e\<close> is the X-error vector (X-syndrome,
  X correction) and when it is the Z-error vector (Z-syndrome, Z correction), whatever
  the other error vector is.
\<close>

theorem single_error_decoded:
  assumes "length e = 15" and "q < 15" and "e ! q" and "\<forall>j<15. j \<noteq> q \<longrightarrow> \<not> e ! j"
  shows "computeSyndrome H_matrix e = q + 1
       \<and> parity_syndrome H_matrix e = q + 1
       \<and> correction_stage (q + 1) e = (replicate 15 False, [q])
       \<and> (case CSS_correction \<lparr>e_X = e, e_Z = other\<rparr> of
            (f', (xs, zs), (x_fired, z_fired)) \<Rightarrow>
              xs = q + 1 \<and> x_fired = [q] \<and> e_X f' = replicate 15 False)
       \<and> (case CSS_correction \<lparr>e_X = other, e_Z = e\<rparr> of
            (f', (xs, zs), (x_fired, z_fired)) \<Rightarrow>
              zs = q + 1 \<and> z_fired = [q] \<and> e_Z f' = replicate 15 False)"
proof -
  have e: "e = single_error q"
    using assms by (rule single_error_unique)
  have s: "computeSyndrome H_matrix e = q + 1"
    unfolding e using assms(2) by (rule syndrome_single)
  have c: "correction_stage (q + 1) e = (replicate 15 False, [q])"
    unfolding e using assms(2) by (rule correction_single)
  have p: "parity_syndrome H_matrix e = q + 1"
    using s computeSyndrome_is_parity [OF assms(1)] by simp
  show ?thesis
    using s p c by (simp add: CSS_correction_def Let_def split_def)
qed

theorem single_error_decoded_witness:
  "length (single_error 4) = 15 \<and> single_error 4 ! 4
   \<and> computeSyndrome H_matrix (single_error 4) = 5
   \<and> correction_stage 5 (single_error 4) = (replicate 15 False, [4])
   \<and> fst (snd (CSS_correction \<lparr>e_X = single_error 4, e_Z = single_error 7\<rparr>)) = (5, 8)
   \<and> snd (snd (CSS_correction \<lparr>e_X = single_error 4, e_Z = single_error 7\<rparr>)) = ([4], [7])"
proof -
  have h4: "\<forall>j<15. j \<noteq> 4 \<longrightarrow> \<not> single_error 4 ! j"
    by (simp add: single_error_def)
  have h7: "\<forall>j<15. j \<noteq> 7 \<longrightarrow> \<not> single_error 7 ! j"
    by (simp add: single_error_def)
  have a: "length (single_error 4) = 15" "(4::nat) < 15" "single_error 4 ! 4"
    by (simp_all add: single_error_def)
  have b: "length (single_error 7) = 15" "(7::nat) < 15" "single_error 7 ! 7"
    by (simp_all add: single_error_def)
  note x = single_error_decoded [OF a h4, of "single_error 7"]
  note z = single_error_decoded [OF b h7, of "single_error 4"]
  show ?thesis
    using a(1,3) x z by (simp add: split_def prod_eq_iff)
qed

text \<open>
  Claim C8. The syndrome of the all-zero error vector is 0. On syndrome 0 the
  correction loop fires no branch and leaves the vector as it is, since the loop tests
  the values 1 to 15 only; \<open>CSS_correction\<close> on the error-free frame returns that
  frame, both syndromes 0 and no fired branch, an ordinary result.
\<close>

theorem zero_error_no_correction:
  "computeSyndrome H_matrix (replicate 15 False) = 0
   \<and> correction_stage 0 e = (e, [])
   \<and> CSS_correction \<lparr>e_X = replicate 15 False, e_Z = replicate 15 False\<rparr>
       = (\<lparr>e_X = replicate 15 False, e_Z = replicate 15 False\<rparr>, (0, 0), ([], []))"
proof -
  have s: "computeSyndrome H_matrix (replicate 15 False) = 0"
    by code_simp
  show ?thesis
    using s by (simp add: CSS_correction_def Let_def correction_stage_zero)
qed

section \<open>The matrices\<close>

lemma column_table:
  "list_all (\<lambda>i. column_value H_matrix i = i + 1) [0..<15]"
  by code_simp

text \<open>
  Claim C3. For every column index \<open>i\<close> from 0 to 14, column \<open>i\<close> of \<open>H_matrix\<close>,
  read with row 0 as the least significant bit, is the number \<open>i + 1\<close>.
\<close>

theorem columns_are_binary:
  "i < 15 \<Longrightarrow> column_value H_matrix i = i + 1"
  using column_table unfolding list_all_iff by simp

theorem columns_are_binary_witness:
  "(6::nat) < 15 \<and> column (H_matrix) 6 = [1, 1, 1, 0] \<and> column_value H_matrix 6 = 7"
proof -
  have c: "column (H_matrix) 6 = [1, 1, 1, 0]"
    by code_simp
  show ?thesis
    using c columns_are_binary [of 6] by simp
qed

text \<open>
  Claim C4. \<open>H_std\<close> is \<open>H_matrix\<close> with its 3rd and 4th rows swapped (indices 2
  and 3) and then its 3rd and 8th columns swapped (indices 2 and 7), and the first four
  columns of \<open>H_std\<close> are the 4 by 4 identity matrix.
\<close>

theorem H_std_from_swaps:
  "H_std = swapColumns 2 7 (swapRows 2 3 H_matrix)
   \<and> map (take 4) H_std = identity_matrix 4"
  by code_simp

section \<open>The codeword list\<close>

text \<open>
  Claim C2, as it is stated, does not hold when a codeword is written in index order
  (coordinate 0 first): the combination that consists of row 2 of \<open>H_std\<close> alone,
  with coordinates 2 and 7 swapped, is the string 000000011111111, which is not an entry
  of \<open>logical_zero_components\<close>; so the two sets of strings differ.
\<close>

theorem codewords_index_order_counterexample:
  "index_order_string (swap_coordinates 2 7 (gf2_combination [False, False, True, False] H_std))
     = ''000000011111111''
   \<and> ''000000011111111'' \<notin> set logical_zero_components
   \<and> set (map index_order_string derived_codewords) \<noteq> set logical_zero_components"
  by code_simp

text \<open>
  Claim C2, amended. The encoding circuit, run on the all-zero basis state, prepares a
  superposition whose support is, as a set, the set of the \<open>2^4\<close> combinations over
  GF(2) of the rows of \<open>H_std\<close> with coordinates 2 and 7 swapped; and that set, with
  every codeword written as a measurement key (coordinate 14 first, coordinate 0 last),
  is exactly the set of the 16 strings of \<open>logical_zero_components\<close>.
\<close>

theorem codewords_measurement_order:
  "map_option set encode_logical_zero = Some (set derived_codewords)
   \<and> set (map measurement_key derived_codewords) = set logical_zero_components
   \<and> map_option (\<lambda>S. set (map measurement_key S)) encode_logical_zero
       = Some (set logical_zero_components)"
  by code_simp

lemma closed_under_xor_table:
  "list_all (\<lambda>a. list_all (\<lambda>b. xor_strings a b \<in> set logical_zero_components)
                    logical_zero_components) logical_zero_components"
  by code_simp

lemma measurement_syndrome_table:
  "list_all (\<lambda>k. computeSyndrome H_matrix (measurement_bits k) = 0) logical_zero_components"
  by code_simp

lemma measurement_overlap_table:
  "list_all (\<lambda>k. list_all (\<lambda>row. even (overlap row (measurement_bits k))) H_matrix)
     logical_zero_components"
  by code_simp

lemma weight_table:
  "list_all (\<lambda>k. k \<noteq> ''000000000000000'' \<longrightarrow> hamming_weight k = 8) logical_zero_components"
  by code_simp

lemma first_component_member: "''110000110011110'' \<in> set logical_zero_components"
  by code_simp

lemma second_component_member: "''011010011001011'' \<in> set logical_zero_components"
  by code_simp

text \<open>
  Claim C5, as it is stated, does not hold when an entry is read in index order
  (character \<open>i\<close> is qubit \<open>i\<close>): the first entry, 110000110011110, overlaps row 3 of
  \<open>H_matrix\<close> in 5 positions, and its syndrome is 8.
\<close>

theorem codeword_syndrome_index_order_counterexample:
  "''110000110011110'' \<in> set logical_zero_components
   \<and> overlap (H_matrix ! 3) (index_order_bits ''110000110011110'') = 5
   \<and> computeSyndrome H_matrix (index_order_bits ''110000110011110'') = 8"
  by code_simp

text \<open>
  Claim C5, amended. \<open>logical_zero_components\<close> has \<open>2^4 = 16\<close> entries, contains
  the all-zero string and is closed under the XOR of two entries character by character.
  Every entry, read as the measurement key it is compared with (its last character is
  qubit 0), overlaps every row of \<open>H_matrix\<close> in an even number of positions and has
  syndrome 0; taken as X-error vector and as Z-error vector of \<open>CSS_correction\<close> it
  gives X-syndrome 0 and Z-syndrome 0.
\<close>

theorem codeword_set_invariants:
  "length logical_zero_components = 2 ^ 4
   \<and> ''000000000000000'' \<in> set logical_zero_components
   \<and> (\<forall>a\<in>set logical_zero_components. \<forall>b\<in>set logical_zero_components.
         xor_strings a b \<in> set logical_zero_components)
   \<and> (\<forall>k\<in>set logical_zero_components. \<forall>row\<in>set H_matrix.
         even (overlap row (measurement_bits k)))
   \<and> (\<forall>k\<in>set logical_zero_components.
         computeSyndrome H_matrix (measurement_bits k) = 0
         \<and> fst (snd (CSS_correction \<lparr>e_X = measurement_bits k, e_Z = measurement_bits k\<rparr>))
             = (0, 0))"
proof -
  have n: "length logical_zero_components = 2 ^ 4"
    by code_simp
  have z: "''000000000000000'' \<in> set logical_zero_components"
    by code_simp
  have x: "\<forall>a\<in>set logical_zero_components. \<forall>b\<in>set logical_zero_components.
             xor_strings a b \<in> set logical_zero_components"
    using closed_under_xor_table unfolding list_all_iff .
  have v: "\<forall>k\<in>set logical_zero_components. \<forall>row\<in>set H_matrix.
             even (overlap row (measurement_bits k))"
    using measurement_overlap_table unfolding list_all_iff .
  have s: "\<forall>k\<in>set logical_zero_components. computeSyndrome H_matrix (measurement_bits k) = 0"
    using measurement_syndrome_table unfolding list_all_iff .
  have c: "\<forall>k\<in>set logical_zero_components.
             computeSyndrome H_matrix (measurement_bits k) = 0
             \<and> fst (snd (CSS_correction \<lparr>e_X = measurement_bits k, e_Z = measurement_bits k\<rparr>))
                 = (0, 0)"
    using s by (simp add: CSS_correction_def Let_def split_def)
  from n z x v c show ?thesis
    by (intro conjI)
qed

theorem codeword_set_invariants_witness:
  "''110000110011110'' \<in> set logical_zero_components
   \<and> ''011010011001011'' \<in> set logical_zero_components
   \<and> xor_strings ''110000110011110'' ''011010011001011'' \<in> set logical_zero_components
   \<and> even (overlap (H_matrix ! 3) (measurement_bits ''110000110011110''))
   \<and> computeSyndrome H_matrix (measurement_bits ''110000110011110'') = 0"
proof -
  note a = first_component_member and b = second_component_member
  have r: "H_matrix ! 3 \<in> set H_matrix"
    by (simp add: H_matrix_def)
  note inv = codeword_set_invariants
  note x = inv [THEN conjunct2, THEN conjunct2, THEN conjunct1, THEN bspec, OF a, THEN bspec, OF b]
  note v = inv [THEN conjunct2, THEN conjunct2, THEN conjunct2, THEN conjunct1,
                THEN bspec, OF a, THEN bspec, OF r]
  note s = inv [THEN conjunct2, THEN conjunct2, THEN conjunct2, THEN conjunct2,
                THEN bspec, OF a, THEN conjunct1]
  from a b x v s show ?thesis
    by (intro conjI)
qed

text \<open>
  Claim C10. The 16 strings of \<open>logical_zero_components\<close> are pairwise distinct, and
  every one of them other than the all-zero string has exactly 8 characters 1.
\<close>

theorem codeword_weights_distinct:
  "distinct logical_zero_components
   \<and> (\<forall>k\<in>set logical_zero_components. k \<noteq> ''000000000000000'' \<longrightarrow> hamming_weight k = 8)"
proof -
  have d: "distinct logical_zero_components"
    by code_simp
  have w: "\<forall>k\<in>set logical_zero_components. k \<noteq> ''000000000000000'' \<longrightarrow> hamming_weight k = 8"
    using weight_table unfolding list_all_iff .
  from d w show ?thesis ..
qed

theorem codeword_weights_distinct_witness:
  "''110000110011110'' \<in> set logical_zero_components
   \<and> ''110000110011110'' \<noteq> ''000000000000000''
   \<and> hamming_weight ''110000110011110'' = 8"
proof -
  note a = first_component_member
  have ne: "''110000110011110'' \<noteq> ''000000000000000''"
    by simp
  note w = codeword_weights_distinct [THEN conjunct2, THEN bspec, OF a, THEN mp, OF ne]
  from a ne w show ?thesis
    by (intro conjI)
qed

section \<open>The numpy error channel\<close>

text \<open>
  What the three tests of \<open>pauli_error_numpy\<close> add up to. The tests are not
  exclusive: a draw below \<open>p\<close> passes all three and the circuit is X, Y, Z, which is
  the identity up to a global phase; a draw in \<open>[p, 2p)\<close> passes the last two and the
  circuit is Y, Z, which is X up to a global phase. No draw gives a net Y.
\<close>

lemma pauli_error_numpy_net_outcome:
  assumes "0 \<le> p" and "pauli_error_numpy p rng = (Inr qc, rng')"
  shows "pauli_outcome qc sim0 =
           (if shd rng < p then Pauli_I
            else if shd rng < 2 * p then Pauli_X
            else if shd rng < 3 * p then Pauli_Z
            else Pauli_I)"
  using assms
  by (auto simp add: pauli_error_numpy_def np_random_rand_def Let_def pauli_outcome_def
        run_shot_def split: if_splits)

text \<open>
  Claim C6 says that a draw \<open>u\<close> in \<open>[0, p)\<close> yields an X error and a draw in
  \<open>[p, 2p)\<close> a Y error. The code at \<open>p = 1/4\<close>: the draw \<open>1/8\<close>, which lies in
  \<open>[0, p)\<close>, builds the circuit X, Y, Z, whose net Pauli operator is the identity; the
  draw \<open>3/8\<close>, which lies in \<open>[p, 2p)\<close>, builds the circuit Y, Z, whose net Pauli
  operator is X.
\<close>

theorem pauli_error_numpy_cumulative_gates:
  "pauli_error_numpy (1/4) (sconst (1/8))
     = (Inr [Gate X_gate Error_qubit, Gate Y_gate Error_qubit, Gate Z_gate Error_qubit],
        sconst (1/8))
   \<and> pauli_outcome [Gate X_gate Error_qubit, Gate Y_gate Error_qubit, Gate Z_gate Error_qubit]
         sim0 = Pauli_I
   \<and> pauli_error_numpy (1/4) (sconst (3/8))
     = (Inr [Gate Y_gate Error_qubit, Gate Z_gate Error_qubit], sconst (3/8))
   \<and> pauli_outcome [Gate Y_gate Error_qubit, Gate Z_gate Error_qubit] sim0 = Pauli_X"
  by (simp add: pauli_error_numpy_def np_random_rand_def pauli_outcome_def run_shot_def)

text \<open>
  Claim C7, as it is stated, does not hold: \<open>p = 1/2\<close> lies outside \<open>[0, 1/3]\<close>,
  and \<open>pauli_error_numpy\<close> called with it (and the draw \<open>1/4\<close>) returns a circuit;
  it does not fail with \<open>InvalidParameterError\<close>.
\<close>

theorem out_of_range_p_counterexample:
  "\<not> (0 \<le> (1/2::real) \<and> (1/2::real) \<le> 1/3)
   \<and> pauli_error_numpy (1/2) (sconst (1/4))
     = (Inr [Gate X_gate Error_qubit, Gate Y_gate Error_qubit, Gate Z_gate Error_qubit],
        sconst (1/4))
   \<and> fst (pauli_error_numpy (1/2) (sconst (1/4))) \<noteq> Inl InvalidParameterError"
  by (simp add: pauli_error_numpy_def np_random_rand_def)

text \<open>
  Claim C7, amended. \<open>pauli_error_numpy\<close> does not check its parameter: for every
  \<open>p\<close>, inside \<open>[0, 1/3]\<close> or not, and every state of the random source it takes one
  draw and returns a circuit of at most three gates; it never fails with
  \<open>InvalidParameterError\<close>.
\<close>

theorem pauli_error_numpy_never_raises:
  "(\<exists>qc. pauli_error_numpy p rng = (Inr qc, stl rng) \<and> length qc \<le> 3)
   \<and> fst (pauli_error_numpy p rng) \<noteq> Inl InvalidParameterError"
  by (simp add: pauli_error_numpy_def np_random_rand_def Let_def)

section \<open>Replaying a constructed circuit\<close>

text \<open>
  Replays of a circuit need not agree: the outcome of a shot of the circuit of
  \<open>pauli_error\<close> follows the result of its measurement. With the register values 0,
  1, 2 and 3 (the notebook's last cell counts all four at \<open>p = 0.2\<close>) the shot gives
  X, Y, Z and the identity, so two shots of that one circuit can give X and then the
  identity.
\<close>

lemma pauli_error_outcome_follows_measurement:
  assumes "pauli_error (1/5) = Inr qc"
  shows "pauli_outcome qc (sconst 0) = Pauli_X \<and> pauli_outcome qc (sconst 1) = Pauli_Y
       \<and> pauli_outcome qc (sconst 2) = Pauli_Z \<and> pauli_outcome qc (sconst 3) = Pauli_I
       \<and> replay_shots qc 2 (0 ## sconst 3) = ([Pauli_X, Pauli_I], sconst 3)"
  using assms
  by (auto simp add: pauli_error_def Let_def pauli_outcome_def run_shot_def numeral_2_eq_2)

text \<open>
  The circuit that \<open>pauli_error_numpy\<close> returns has no measurement and no
  \<open>if_test\<close>, and a shot of such a circuit does not consult the simulator's random
  source.
\<close>

lemma pauli_error_numpy_measurement_free:
  assumes "pauli_error_numpy p rng = (Inr qc, rng')"
  shows "list_all measurement_free qc"
  using assms
  by (auto simp add: pauli_error_numpy_def np_random_rand_def Let_def split: if_splits)

lemma exec_measurement_free:
  assumes "measurement_free i"
  shows "exec i \<lparr>frame = f, creg = c, sim = s1\<rparr>
         = \<lparr>frame = frame (exec i \<lparr>frame = f, creg = c, sim = s2\<rparr>), creg = c, sim = s1\<rparr>"
proof (cases i)
  case (Gate g q)
  then show ?thesis by (cases q) simp_all
qed (use assms in simp_all)

lemma fold_exec_measurement_free:
  "list_all measurement_free qc \<Longrightarrow>
   fold exec qc \<lparr>frame = f, creg = c, sim = s1\<rparr>
     = \<lparr>frame = frame (fold exec qc \<lparr>frame = f, creg = c, sim = s2\<rparr>), creg = c, sim = s1\<rparr>"
proof (induction qc arbitrary: f)
  case Nil
  then show ?case by simp
next
  case (Cons i qc)
  from Cons.prems have i: "measurement_free i" and r: "list_all measurement_free qc"
    by simp_all
  have e1: "exec i \<lparr>frame = f, creg = c, sim = s1\<rparr>
            = \<lparr>frame = frame (exec i \<lparr>frame = f, creg = c, sim = s2\<rparr>), creg = c, sim = s1\<rparr>"
    using i by (rule exec_measurement_free)
  have e2: "exec i \<lparr>frame = f, creg = c, sim = s2\<rparr>
            = \<lparr>frame = frame (exec i \<lparr>frame = f, creg = c, sim = s2\<rparr>), creg = c, sim = s2\<rparr>"
    using i by (rule exec_measurement_free)
  show ?case
    apply simp
    apply (subst e1)
    apply (subst (2) e2)
    apply (rule Cons.IH [OF r])
    done
qed

lemma run_shot_measurement_free:
  "list_all measurement_free qc \<Longrightarrow>
   run_shot qc s1 = \<lparr>frame = frame (run_shot qc s2), creg = 0, sim = s1\<rparr>"
  unfolding run_shot_def by (rule fold_exec_measurement_free)

lemma replay_shots_measurement_free:
  "list_all measurement_free qc \<Longrightarrow>
   replay_shots qc n s1 = (replicate n (pauli_outcome qc s2), s1)"
proof (induction n)
  case 0
  then show ?case by simp
next
  case (Suc n)
  have r: "run_shot qc s1 = \<lparr>frame = frame (run_shot qc s2), creg = 0, sim = s1\<rparr>"
    using Suc.prems by (rule run_shot_measurement_free)
  show ?case
    using Suc.IH [OF Suc.prems] by (simp add: r pauli_outcome_def)
qed

lemma rebuild_shots_draws: "fst (snd (rebuild_shots p n rng sim0)) = sdrop n rng"
  by (induction n arbitrary: rng sim0)
     (simp_all add: pauli_error_numpy_def np_random_rand_def Let_def split_def)

lemma reconstruction_can_differ:
  assumes "0 < p"
  shows "\<exists>qa qb. fst (pauli_error_numpy p (sconst (5 * p / 2))) = Inr qa
               \<and> fst (pauli_error_numpy p (sconst (3 * p / 2))) = Inr qb
               \<and> pauli_outcome qa sim1 = Pauli_Z \<and> pauli_outcome qb sim1 \<noteq> Pauli_Z"
  using assms
  by (simp add: pauli_error_numpy_def np_random_rand_def Let_def pauli_outcome_def
        run_shot_def)

text \<open>
  Claim C9. Let \<open>qc\<close> be the circuit returned by a call of \<open>pauli_error_numpy p\<close>.
  The call took exactly one draw from numpy's random source, and \<open>qc\<close> is fixed by
  \<open>p\<close> and that draw. The Pauli outcome of a shot of \<open>qc\<close> is the same for every
  state of the simulator's random source, so any number \<open>n\<close> of replays of \<open>qc\<close>
  gives \<open>n\<close> times the same outcome and uses no randomness. A different outcome needs
  a new call: constructing the circuit anew for every shot takes one draw per shot, and
  for \<open>p > 0\<close> there are two draws (\<open>5p/2\<close> and \<open>3p/2\<close>, both in \<open>[0, 1)\<close>
  when \<open>p \<le> 1/3\<close>) whose circuits have different outcomes; at \<open>p = 1/4\<close> the draws
  \<open>5/8\<close> and \<open>7/8\<close> give Z and then the identity.
\<close>

theorem replay_deterministic:
  assumes "pauli_error_numpy p rng = (Inr qc, rng')"
  shows "rng' = stl rng
       \<and> fst (pauli_error_numpy p (shd rng ## other)) = Inr qc
       \<and> pauli_outcome qc sim1 = pauli_outcome qc sim2
       \<and> replay_shots qc n sim1 = (replicate n (pauli_outcome qc sim2), sim1)
       \<and> fst (snd (rebuild_shots p n rng sim1)) = sdrop n rng
       \<and> (0 < p \<longrightarrow>
            (\<exists>qa qb. fst (pauli_error_numpy p (sconst (5 * p / 2))) = Inr qa
                   \<and> fst (pauli_error_numpy p (sconst (3 * p / 2))) = Inr qb
                   \<and> pauli_outcome qa sim1 \<noteq> pauli_outcome qb sim1))
       \<and> fst (rebuild_shots (1/4) 2 (5/8 ## sconst (7/8)) sim1) = [Pauli_Z, Pauli_I]"
proof -
  have a: "rng' = stl rng"
    using assms by (simp add: pauli_error_numpy_def np_random_rand_def Let_def)
  have b: "fst (pauli_error_numpy p (shd rng ## other)) = Inr qc"
    using assms by (simp add: pauli_error_numpy_def np_random_rand_def Let_def)
  have m: "list_all measurement_free qc"
    using assms by (rule pauli_error_numpy_measurement_free)
  have r: "replay_shots qc n sim1 = (replicate n (pauli_outcome qc sim2), sim1)"
    using m by (rule replay_shots_measurement_free)
  have o: "pauli_outcome qc sim1 = pauli_outcome qc sim2"
    using run_shot_measurement_free [OF m, of sim1 sim2] by (simp add: pauli_outcome_def)
  have d: "fst (snd (rebuild_shots p n rng sim1)) = sdrop n rng"
    by (rule rebuild_shots_draws)
  have f: "0 < p \<longrightarrow>
            (\<exists>qa qb. fst (pauli_error_numpy p (sconst (5 * p / 2))) = Inr qa
                   \<and> fst (pauli_error_numpy p (sconst (3 * p / 2))) = Inr qb
                   \<and> pauli_outcome qa sim1 \<noteq> pauli_outcome qb sim1)"
    using reconstruction_can_differ [of p sim1] by auto
  have e: "fst (rebuild_shots (1/4) 2 (5/8 ## sconst (7/8)) sim1) = [Pauli_Z, Pauli_I]"
    by (simp add: numeral_2_eq_2 pauli_error_numpy_def np_random_rand_def run_shot_def
          Let_def split_def)
  from a b o r d f e show ?thesis
    by (intro conjI)
qed

theorem replay_deterministic_witness:
  "pauli_error_numpy (1/4) (5/8 ## sconst (7/8)) = (Inr [Gate Z_gate Error_qubit], sconst (7/8))
   \<and> (0::real) < 1/4
   \<and> pauli_outcome [Gate Z_gate Error_qubit] (sconst 0)
       = pauli_outcome [Gate Z_gate Error_qubit] (sconst 3)
   \<and> replay_shots [Gate Z_gate Error_qubit] 3 (sconst 0) = ([Pauli_Z, Pauli_Z, Pauli_Z], sconst 0)
   \<and> (\<exists>qa qb. fst (pauli_error_numpy (1/4) (sconst (5/8))) = Inr qa
             \<and> fst (pauli_error_numpy (1/4) (sconst (3/8))) = Inr qb
             \<and> pauli_outcome qa (sconst 0) \<noteq> pauli_outcome qb (sconst 0))"
proof -
  have h: "pauli_error_numpy (1/4) (5/8 ## sconst (7/8))
           = (Inr [Gate Z_gate Error_qubit], sconst (7/8))"
    by (simp add: pauli_error_numpy_def np_random_rand_def)
  have z: "pauli_outcome [Gate Z_gate Error_qubit] (sconst 3) = Pauli_Z"
    by (simp add: pauli_outcome_def run_shot_def)
  have p: "(0::real) < 1/4"
    by simp
  note t = replay_deterministic [OF h, of _ "sconst 0" "sconst 3" 3]
  note o = t [THEN conjunct2, THEN conjunct2, THEN conjunct1]
  note r = t [THEN conjunct2, THEN conjunct2, THEN conjunct2, THEN conjunct1]
  note f = t [THEN conjunct2, THEN conjunct2, THEN conjunct2, THEN conjunct2, THEN conjunct2,
              THEN conjunct1, THEN mp, OF p]
  have r': "replay_shots [Gate Z_gate Error_qubit] 3 (sconst 0)
            = ([Pauli_Z, Pauli_Z, Pauli_Z], sconst 0)"
    using r unfolding z by (simp add: numeral_3_eq_3)
  have f': "\<exists>qa qb. fst (pauli_error_numpy (1/4) (sconst (5/8))) = Inr qa
             \<and> fst (pauli_error_numpy (1/4) (sconst (3/8))) = Inr qb
             \<and> pauli_outcome qa (sconst 0) \<noteq> pauli_outcome qb (sconst 0)"
    using f by simp
  from h p o r' f' show ?thesis
    by (intro conjI)
qed

end
